theory Spec2Isabelle
  imports Complex_Main
begin

section \<open>Values of the JavaScript runtime\<close>

text \<open>
  The body of an HTTP error response (\<^verbatim>\<open>e.response.data\<close>) is kept as opaque text.
\<close>

type_synonym payload = string

text \<open>
  What a \<^verbatim>\<open>throw\<close> carries. \<open>Error m\<close> is a plain \<^verbatim>\<open>new Error(m)\<close> and
  \<open>TypeError m\<close> a runtime type error: neither has a \<^verbatim>\<open>response\<close> property.
  \<open>ResponseError d\<close> is an error object whose \<^verbatim>\<open>response.data\<close> is \<open>d\<close>
  (\<open>None\<close> when \<^verbatim>\<open>data\<close> is undefined).
\<close>

datatype thrown = Error string | TypeError string | ResponseError "payload option"

text \<open>The expression \<^verbatim>\<open>e.response.data\<close> of the catch handlers.\<close>

fun response_data :: "thrown \<Rightarrow> thrown + payload option" where
  "response_data (ResponseError d) = Inr d"
| "response_data (Error m) = Inl (TypeError ''Cannot read properties of undefined (reading data)'')"
| "response_data (TypeError m) = Inl (TypeError ''Cannot read properties of undefined (reading data)'')"

text \<open>
  A JavaScript number: NaN, an infinity (\<open>True\<close> for the positive one) or a numeric value;
  both zeros are \<open>Num 0\<close>, since \<^verbatim>\<open>-0 === 0\<close>.
\<close>

datatype jsnumber = NaN | Infinity bool | Num rat

text \<open>
  The values whose truthiness the services test: a boolean, an error object, and the
  Promise a call of an asynchronous method evaluates to when it is not awaited
  (\<open>JPromise b\<close> will resolve to \<open>b\<close>).
\<close>

datatype jsvalue = JBool bool | JError thrown | JPromise bool

text \<open>
  Truthiness as \<^verbatim>\<open>?:\<close> and \<^verbatim>\<open>!\<close> test it: every object is truthy, so every error object
  and every Promise is, whatever the Promise resolves to.
\<close>

fun truthy :: "jsvalue \<Rightarrow> bool" where
  "truthy (JBool b) = b"
| "truthy (JError e) = True"
| "truthy (JPromise b) = True"

definition truthy_string :: "string option \<Rightarrow> bool" where
  "truthy_string s = (case s of None \<Rightarrow> False | Some t \<Rightarrow> t \<noteq> [])"

definition truthy_number :: "jsnumber \<Rightarrow> bool" where
  "truthy_number n = (n \<noteq> NaN \<and> n \<noteq> Num 0)"

text \<open>\<^verbatim>\<open>s.split(sep)\<close> for a one-character separator: never the empty array.\<close>

fun split_str :: "char \<Rightarrow> string \<Rightarrow> string list" where
  "split_str sep [] = [[]]"
| "split_str sep (c # cs) =
     (if c = sep then [] # split_str sep cs
      else (case split_str sep cs of
              [] \<Rightarrow> [[c]]
            | p # ps \<Rightarrow> (c # p) # ps))"

text \<open>\<^verbatim>\<open>xs[i]\<close>: undefined (\<open>None\<close>) out of range.\<close>

fun index :: "'a list \<Rightarrow> nat \<Rightarrow> 'a option" where
  "index [] i = None"
| "index (x # xs) 0 = Some x"
| "index (x # xs) (Suc i) = index xs i"

text \<open>\<^verbatim>\<open>xs.join(sep)\<close>.\<close>

fun join :: "string \<Rightarrow> string list \<Rightarrow> string" where
  "join sep [] = []"
| "join sep [x] = x"
| "join sep (x # y # ys) = x @ sep @ join sep (y # ys)"

section \<open>Ledger data of the Stellar SDK\<close>

datatype asset = Asset (code: string) (issuer: "string option")

datatype keypair = Keypair (publicKey: string) (secret: "string option")

record balance_line =
  asset_type :: string
  asset_code :: "string option"
  asset_issuer :: "string option"
  balance :: string

record account =
  account_id :: string
  balances :: "balance_line list"

record fees =
  base :: "string option"
  max_fee :: "string option"

text \<open>
  The options object handed to \<^verbatim>\<open>Operation.payment\<close>, \<^verbatim>\<open>Operation.changeTrust\<close>,
  \<^verbatim>\<open>Operation.accountMerge\<close>, \<^verbatim>\<open>Operation.createAccount\<close> and \<^verbatim>\<open>Operation.setOptions\<close>;
  a field the call site leaves out, or fills with undefined, is \<open>None\<close>.
\<close>

datatype operation =
    Payment (op_source: "string option") (op_destination: "string option") (op_asset: asset) (op_amount: string)
  | ChangeTrust (op_asset: asset) (op_source: "string option") (op_limit: "string option")
  | AccountMerge (op_destination: "string option")
  | CreateAccount (op_destination: "string option") (op_startingBalance: string)
  | SetOptions (op_homeDomain: string) (op_source: "string option")

datatype StellarModuleMode = TESTNET | PUBLIC

record transaction =
  tx_source :: account
  tx_fee :: string
  tx_network :: StellarModuleMode
  tx_operations :: "operation list"
  tx_memo :: "string option"
  tx_timeout :: nat
  tx_signatures :: "keypair list"

datatype memo_in = MemoString string | MemoNumber jsnumber | MemoBytes "nat list"

fun truthy_memo :: "memo_in \<Rightarrow> bool" where
  "truthy_memo (MemoString s) = (s \<noteq> [])"
| "truthy_memo (MemoNumber n) = truthy_number n"
| "truthy_memo (MemoBytes bs) = True"

section \<open>Module configuration\<close>

record account_entry =
  entry_type :: string
  entry_public :: "string option"
  entry_secret :: "string option"

datatype trustline_descriptor = Descriptor string | PerMode "StellarModuleMode \<Rightarrow> string option"

record starting_options =
  starting_balance :: "string option"
  homeDomain :: "string option"
  baseTrustline :: "trustline_descriptor list option"

record account_options =
  create_by :: "string option"
  starting :: "starting_options option"

text \<open>
  \<open>accountOptions\<close> is \<^verbatim>\<open>options.account.config\<close>, \<open>mainAccounts\<close> is
  \<^verbatim>\<open>options.account.accounts || []\<close>.
\<close>

record module_options =
  accountOptions :: "account_options option"
  mainAccounts :: "account_entry list"
  mode :: "StellarModuleMode option"

definition network :: "module_options \<Rightarrow> StellarModuleMode" where
  "network opts = (case mode opts of None \<Rightarrow> TESTNET | Some m \<Rightarrow> m)"

definition accountsTypes :: "module_options \<Rightarrow> string list" where
  "accountsTypes opts = map entry_type (mainAccounts opts)"

section \<open>Collaborators and effects\<close>

text \<open>
  A call the services make on an injected collaborator, or an operation appended to the
  transaction builder, in the order they happen.
\<close>

datatype event =
    GetFees
  | LoadAccount "string option"
  | ValidateAssetBalance string asset jsnumber
  | SignTransaction transaction "keypair list"
  | SubmitTransaction transaction
  | AddOperation operation

text \<open>
  Everything the two services use and do not define: the constants of
  \<^verbatim>\<open>../../constants\<close>, the Stellar SDK, \<^verbatim>\<open>getAssetCode\<close>, and the services
  \<^verbatim>\<open>ServerService\<close>, \<^verbatim>\<open>SignersService\<close> and \<^verbatim>\<open>PaymentUtilsService\<close>. A call that can
  throw or reject yields \<open>Inl\<close> of what it throws. \<open>Operation_rejects op\<close> is what the
  SDK's operation constructor throws for the options \<open>op\<close>, \<open>None\<close> when it accepts
  them. \<open>validateAssetBalance\<close> of \<^verbatim>\<open>PaymentUtilsService\<close> is given an account id, an
  asset and an amount, so it has to load the account's balances, which every service here
  does asynchronously (\<^verbatim>\<open>getAccount\<close>, \<^verbatim>\<open>getBalances\<close>): it is an \<^verbatim>\<open>async\<close> method, and
  the field is what its Promise resolves to. \<open>signTransaction\<close> is the first
  element of the array the service resolves to. \<open>Keypair_random\<close> is the pair the one call
  of \<^verbatim>\<open>Keypair.random()\<close> yields. Within one run a collaborator answers the same question
  the same way.
\<close>

record world =
  INVALID_SECRET :: string
  INVALID_ACCOUNT_TYPE :: string
  BASE_FEE :: string
  Asset_native :: asset
  Asset_new :: "string option \<Rightarrow> string option \<Rightarrow> thrown + asset"
  getAssetCode :: "string \<Rightarrow> thrown + asset"
  Keypair_random :: keypair
  Keypair_fromSecret :: "string option \<Rightarrow> thrown + keypair"
  Keypair_fromPublicKey :: "string option \<Rightarrow> thrown + keypair"
  Operation_rejects :: "operation \<Rightarrow> thrown option"
  parseFloat :: "string \<Rightarrow> jsnumber"
  Number_toString :: "jsnumber \<Rightarrow> string"
  hash_hex :: "transaction \<Rightarrow> string"
  getFees :: "thrown + fees"
  loadAccount :: "string option \<Rightarrow> thrown + account"
  submitTransaction :: "transaction \<Rightarrow> thrown + unit"
  signTransaction :: "transaction \<Rightarrow> keypair list \<Rightarrow> thrown + transaction"
  validateAssetBalance :: "string \<Rightarrow> asset \<Rightarrow> jsnumber \<Rightarrow> bool"
  validateMemo :: "memo_in \<Rightarrow> thrown + string"

text \<open>
  An asynchronous computation: what it returns or throws, and the events it caused.
\<close>

type_synonym 'a io = "(thrown + 'a) \<times> event list"

definition ret :: "'a \<Rightarrow> 'a io" where
  "ret x = (Inr x, [])"

definition throw :: "thrown \<Rightarrow> 'a io" where
  "throw e = (Inl e, [])"

definition lift :: "thrown + 'a \<Rightarrow> 'a io" where
  "lift r = (r, [])"

definition call :: "event \<Rightarrow> thrown + 'a \<Rightarrow> 'a io" where
  "call ev r = (r, [ev])"

definition bind :: "'a io \<Rightarrow> ('a \<Rightarrow> 'b io) \<Rightarrow> 'b io" where
  "bind m f =
     (case m of
        (Inl e, tr) \<Rightarrow> (Inl e, tr)
      | (Inr x, tr) \<Rightarrow> (case f x of (r, tr') \<Rightarrow> (r, tr @ tr')))"

text \<open>\<^verbatim>\<open>try { m } catch (e) { h(e) }\<close>.\<close>

definition catch :: "'a io \<Rightarrow> (thrown \<Rightarrow> 'a io) \<Rightarrow> 'a io" where
  "catch m h =
     (case m of
        (Inl e, tr) \<Rightarrow> (case h e of (r, tr') \<Rightarrow> (r, tr @ tr'))
      | (Inr x, tr) \<Rightarrow> (Inr x, tr))"

text \<open>\<^verbatim>\<open>builder.addOperation(Operation.x(op))\<close> on the builder's operation list.\<close>

definition addOperation :: "world \<Rightarrow> operation \<Rightarrow> operation list \<Rightarrow> operation list io" where
  "addOperation w op ops =
     (case Operation_rejects w op of
        Some e \<Rightarrow> throw e
      | None \<Rightarrow> (Inr (ops @ [op]), [AddOperation op]))"

text \<open>\<^verbatim>\<open>const { base = BASE_FEE } = fees\<close> and its \<^verbatim>\<open>max\<close> twin.\<close>

definition base_or_default :: "world \<Rightarrow> fees \<Rightarrow> string" where
  "base_or_default w f = (case base f of None \<Rightarrow> BASE_FEE w | Some b \<Rightarrow> b)"

definition max_or_default :: "world \<Rightarrow> fees \<Rightarrow> string" where
  "max_or_default w f = (case max_fee f of None \<Rightarrow> BASE_FEE w | Some b \<Rightarrow> b)"

text \<open>
  \<^verbatim>\<open>new TransactionBuilder(account, {fee, networkPassphrase})\<close> followed, after the
  operations and the memo, by \<^verbatim>\<open>setTimeout(t).build()\<close>. The SDK refuses a null account.
\<close>

definition build :: "account \<Rightarrow> string \<Rightarrow> StellarModuleMode \<Rightarrow> operation list \<Rightarrow> string option \<Rightarrow> nat \<Rightarrow> transaction" where
  "build a fee net ops memo t =
     \<lparr>tx_source = a, tx_fee = fee, tx_network = net, tx_operations = ops, tx_memo = memo,
      tx_timeout = t, tx_signatures = []\<rparr>"

definition builder_account :: "account option \<Rightarrow> account io" where
  "builder_account a =
     (case a of
        None \<Rightarrow> throw (Error ''must specify source account for the transaction'')
      | Some acc \<Rightarrow> ret acc)"

text \<open>\<^verbatim>\<open>transaction.sign(keypair)\<close>.\<close>

definition sign :: "keypair \<Rightarrow> transaction \<Rightarrow> transaction" where
  "sign k tx = tx\<lparr>tx_signatures := tx_signatures tx @ [k]\<rparr>"

section \<open>AccountUtilsService\<close>

definition isValidAccount :: "world \<Rightarrow> string option \<Rightarrow> jsvalue" where
  "isValidAccount w accountId =
     (case Keypair_fromPublicKey w accountId of
        Inr k \<Rightarrow> JBool True
      | Inl e \<Rightarrow> JError e)"

definition getAccount :: "world \<Rightarrow> string option \<Rightarrow> account option io" where
  "getAccount w accountId =
     (if truthy (isValidAccount w accountId)
      then bind (call (LoadAccount accountId) (loadAccount w accountId)) (\<lambda>a. ret (Some a))
      else ret None)"

text \<open>
  \<^verbatim>\<open>getBalances\<close> returns the whole array when no asset code is given and the line found
  (or undefined) otherwise; \<^verbatim>\<open>account.balances\<close> of a null account is a type error.
\<close>

datatype balances_result = AllBalances "balance_line list" | FoundBalance "balance_line option"

definition getBalances :: "world \<Rightarrow> string option \<Rightarrow> string option \<Rightarrow> balances_result io" where
  "getBalances w accountId assetCode =
     bind (getAccount w accountId) (\<lambda>acc.
       case acc of
         None \<Rightarrow> throw (TypeError ''Cannot read properties of null (reading balances)'')
       | Some a \<Rightarrow>
           (case assetCode of
              None \<Rightarrow> ret (AllBalances (balances a))
            | Some c \<Rightarrow>
                if c = [] then ret (AllBalances (balances a))
                else ret (FoundBalance (find (\<lambda>b. if c = ''XLM'' then asset_type b = ''native''
                                                   else asset_code b = Some c) (balances a)))))"

definition getPairFromSecret :: "world \<Rightarrow> string option \<Rightarrow> thrown + keypair" where
  "getPairFromSecret w s =
     (case Keypair_fromSecret w s of
        Inr k \<Rightarrow> Inr k
      | Inl e \<Rightarrow> Inl (Error (INVALID_SECRET w)))"

definition getAccountFromSecret :: "world \<Rightarrow> string option \<Rightarrow> (keypair \<times> account option) io" where
  "getAccountFromSecret w s =
     bind (lift (getPairFromSecret w s)) (\<lambda>pair.
     bind (getAccount w (Some (publicKey pair))) (\<lambda>acc.
     ret (pair, acc)))"

section \<open>PaymentService\<close>

definition getAsset :: "world \<Rightarrow> string \<Rightarrow> thrown + asset" where
  "getAsset w a =
     (if a = ''XLM'' then Inr (Asset_native w)
      else Asset_new w (index (split_str CHR '':'' a) 0) (index (split_str CHR '':'' a) 1))"

record payment_to =
  to_publicKey :: "string option"
  to_secretKey :: "string option"

datatype amount = AmountNumber jsnumber | AmountString string

record payment =
  p_asset :: string
  p_amount :: amount
  p_memo :: "memo_in option"
  p_to :: payment_to

record sender =
  s_secretKey :: string
  s_asset :: string
  s_amount :: jsnumber

text \<open>\<^verbatim>\<open>typeof amount === 'string' ? parseFloat(amount) : amount\<close> and \<^verbatim>\<open>amount.toString()\<close>.\<close>

definition amount_number :: "world \<Rightarrow> amount \<Rightarrow> jsnumber" where
  "amount_number w a = (case a of AmountString s \<Rightarrow> parseFloat w s | AmountNumber n \<Rightarrow> n)"

definition amount_toString :: "world \<Rightarrow> amount \<Rightarrow> string" where
  "amount_toString w a = (case a of AmountString s \<Rightarrow> s | AmountNumber n \<Rightarrow> Number_toString w n)"

fun truthy_balances :: "balances_result \<Rightarrow> bool" where
  "truthy_balances (AllBalances bs) = True"
| "truthy_balances (FoundBalance b) = (b \<noteq> None)"

text \<open>
  The body of the \<^verbatim>\<open>for\<close> loop of \<^verbatim>\<open>sendPayment\<close> for one payment intent, on the
  builder's operations and the \<^verbatim>\<open>extraSigners\<close> array.
\<close>

definition payment_step ::
  "world \<Rightarrow> keypair \<Rightarrow> operation list \<times> keypair list \<Rightarrow> payment \<Rightarrow> (operation list \<times> keypair list) io" where
  "payment_step w sourcePair st p =
     bind (lift (getAsset w (p_asset p))) (\<lambda>ASSET.
     bind (call (ValidateAssetBalance (publicKey sourcePair) ASSET (amount_number w (p_amount p)))
             (Inr (JPromise (validateAssetBalance w (publicKey sourcePair) ASSET
                               (amount_number w (p_amount p)))))) (\<lambda>promise.
     if \<not> truthy promise then throw (Error ''Insufficient balance'')
     else
     bind (lift (if truthy_string (to_secretKey (p_to p))
                 then (case Keypair_fromSecret w (to_secretKey (p_to p)) of
                         Inl e \<Rightarrow> Inl e
                       | Inr k \<Rightarrow> Inr (Some (publicKey k)))
                 else Inr (to_publicKey (p_to p)))) (\<lambda>pk.
     bind (getBalances w pk (Some (code ASSET))) (\<lambda>hasTrustline.
     bind (if \<not> truthy_balances hasTrustline \<and> truthy_string (to_secretKey (p_to p)) \<and> p_asset p \<noteq> ''XLM''
           then bind (lift (Keypair_fromSecret w (to_secretKey (p_to p)))) (\<lambda>k.
                bind (addOperation w (ChangeTrust ASSET pk None) (fst st)) (\<lambda>ops.
                ret (ops, snd st @ [k])))
           else ret st) (\<lambda>st'.
     bind (addOperation w (Payment None pk ASSET (amount_toString w (p_amount p))) (fst st')) (\<lambda>ops.
     ret (ops, snd st')))))))"

fun payment_loop ::
  "world \<Rightarrow> keypair \<Rightarrow> operation list \<times> keypair list \<Rightarrow> payment list \<Rightarrow> (operation list \<times> keypair list) io" where
  "payment_loop w sourcePair st [] = ret st"
| "payment_loop w sourcePair st (p # ps) =
     bind (payment_step w sourcePair st p) (\<lambda>st'. payment_loop w sourcePair st' ps)"

text \<open>\<^verbatim>\<open>if (m) builder.addMemo(validateMemo(m))\<close>.\<close>

definition add_memo :: "world \<Rightarrow> memo_in option \<Rightarrow> string option io" where
  "add_memo w m =
     (case m of
        None \<Rightarrow> ret None
      | Some v \<Rightarrow> if truthy_memo v then bind (lift (validateMemo w v)) (\<lambda>x. ret (Some x)) else ret None)"

datatype send_result = SignedTransaction transaction | TransactionHash string

definition sendPayment ::
  "module_options \<Rightarrow> world \<Rightarrow> payment list \<Rightarrow> string \<Rightarrow> bool \<Rightarrow> send_result io" where
  "sendPayment opts w payments secretKey feeBump =
     (case payments of
        [] \<Rightarrow> throw (Error ''No payments to send'')
      | first # rest \<Rightarrow>
          bind (call GetFees (getFees w)) (\<lambda>f.
          bind (getAccountFromSecret w (Some secretKey)) (\<lambda>(sourcePair, sourceAccount).
          bind (builder_account sourceAccount) (\<lambda>acc.
          bind (payment_loop w sourcePair ([], [sourcePair]) payments) (\<lambda>(ops, extraSigners).
          bind (add_memo w (p_memo first)) (\<lambda>memo.
          bind (call (SignTransaction (build acc (base_or_default w f) (network opts) ops memo 30) extraSigners)
                  (signTransaction w (build acc (base_or_default w f) (network opts) ops memo 30) extraSigners))
            (\<lambda>transactionSigned.
          if feeBump then ret (SignedTransaction transactionSigned)
          else
          bind (call (SubmitTransaction transactionSigned) (submitTransaction w transactionSigned)) (\<lambda>u.
          ret (TransactionHash (hash_hex w (build acc (base_or_default w f) (network opts) ops memo 30)))))))))))"

text \<open>
  What \<^verbatim>\<open>swapPayment\<close> returns: \<^verbatim>\<open>true\<close>, \<^verbatim>\<open>false\<close>, or the \<^verbatim>\<open>e.response.data\<close> of a
  caught error.
\<close>

datatype swap_result = SwapBool bool | SwapData "payload option"

definition swapPayment ::
  "module_options \<Rightarrow> world \<Rightarrow> sender \<Rightarrow> sender \<Rightarrow> memo_in option \<Rightarrow> swap_result io" where
  "swapPayment opts w sndr rcpt memo =
     catch
       (bind (call GetFees (getFees w)) (\<lambda>f.
        bind (getAccountFromSecret w (Some (s_secretKey sndr))) (\<lambda>(sourcePair, sourceAccount).
        bind (builder_account sourceAccount) (\<lambda>acc.
        bind (lift (getAsset w (s_asset sndr))) (\<lambda>senderAsset.
        bind (lift (getAsset w (s_asset rcpt))) (\<lambda>recipientAsset.
        bind (call (ValidateAssetBalance (s_secretKey sndr) senderAsset (s_amount sndr))
                (Inr (JPromise (validateAssetBalance w (s_secretKey sndr) senderAsset (s_amount sndr))))) (\<lambda>promise.
        if \<not> truthy promise then ret (SwapBool False)
        else
        bind (lift (Keypair_fromSecret w (Some (s_secretKey rcpt)))) (\<lambda>k1.
        bind (addOperation w (Payment None (Some (publicKey k1)) senderAsset (Number_toString w (s_amount sndr))) []) (\<lambda>ops1.
        bind (lift (Keypair_fromSecret w (Some (s_secretKey rcpt)))) (\<lambda>k2.
        bind (lift (Keypair_fromSecret w (Some (s_secretKey sndr)))) (\<lambda>k3.
        bind (addOperation w (Payment (Some (publicKey k2)) (Some (publicKey k3)) recipientAsset
                               (Number_toString w (s_amount rcpt))) ops1) (\<lambda>ops2.
        bind (add_memo w memo) (\<lambda>m.
        bind (lift (Keypair_fromSecret w (Some (s_secretKey rcpt)))) (\<lambda>k4.
        bind (call (SubmitTransaction (sign k4 (sign sourcePair (build acc (max_or_default w f) (network opts) ops2 m 30))))
                (submitTransaction w (sign k4 (sign sourcePair (build acc (max_or_default w f) (network opts) ops2 m 30))))) (\<lambda>u.
        ret (SwapBool True))))))))))))))))
       (\<lambda>e. bind (lift (response_data e)) (\<lambda>d. ret (SwapData d)))"

section \<open>AccountService\<close>

definition validateAccountType :: "module_options \<Rightarrow> world \<Rightarrow> thrown + unit" where
  "validateAccountType opts w =
     (case accountOptions opts of
        None \<Rightarrow> Inl (TypeError ''Cannot read properties of undefined (reading create_by)'')
      | Some c \<Rightarrow>
          if (case create_by c of None \<Rightarrow> False | Some r \<Rightarrow> r \<in> set (accountsTypes opts))
          then Inr ()
          else Inl (Error (INVALID_ACCOUNT_TYPE w @ '' valid types are ['' @ join '', '' (accountsTypes opts)
                           @ ''] not '' @ (case create_by c of None \<Rightarrow> ''undefined'' | Some r \<Rightarrow> r))))"

text \<open>
  \<^verbatim>\<open>this.mainAccounts.find((a) => a.type === this.accountOptions.create_by)\<close>: the callback
  reads \<^verbatim>\<open>accountOptions\<close> only when there is an entry to test.
\<close>

definition find_create_by :: "module_options \<Rightarrow> thrown + account_entry option" where
  "find_create_by opts =
     (case accountOptions opts of
        None \<Rightarrow>
          if mainAccounts opts = [] then Inr None
          else Inl (TypeError ''Cannot read properties of undefined (reading create_by)'')
      | Some c \<Rightarrow> Inr (find (\<lambda>a. Some (entry_type a) = create_by c) (mainAccounts opts)))"

definition entry_public_of :: "account_entry option \<Rightarrow> string option" where
  "entry_public_of e = (case e of None \<Rightarrow> None | Some a \<Rightarrow> entry_public a)"

definition entry_secret_of :: "account_entry option \<Rightarrow> string option" where
  "entry_secret_of e = (case e of None \<Rightarrow> None | Some a \<Rightarrow> entry_secret a)"

text \<open>
  \<^verbatim>\<open>await this.serverService.submitTransaction(tx).catch((e) => e)\<close>: the awaited value is
  the receipt or the caught error, and the statement never throws.
\<close>

definition submit_caught :: "world \<Rightarrow> transaction \<Rightarrow> (thrown + unit) io" where
  "submit_caught w tx = (Inr (submitTransaction w tx), [SubmitTransaction tx])"

text \<open>The \<^verbatim>\<open>map\<close> over \<^verbatim>\<open>baseTrustline\<close>, which ends before the \<^verbatim>\<open>forEach\<close> starts.\<close>

fun descriptor_parts :: "StellarModuleMode \<Rightarrow> trustline_descriptor \<Rightarrow> thrown + string list" where
  "descriptor_parts m (Descriptor s) = Inr (split_str CHR '':'' s)"
| "descriptor_parts m (PerMode t) =
     (case t m of
        None \<Rightarrow> Inl (TypeError ''Cannot read properties of undefined (reading split)'')
      | Some s \<Rightarrow> Inr (split_str CHR '':'' s))"

fun map_parts :: "StellarModuleMode \<Rightarrow> trustline_descriptor list \<Rightarrow> thrown + string list list" where
  "map_parts m [] = Inr []"
| "map_parts m (t # ts) =
     (case descriptor_parts m t of
        Inl e \<Rightarrow> Inl e
      | Inr x \<Rightarrow> (case map_parts m ts of Inl e \<Rightarrow> Inl e | Inr xs \<Rightarrow> Inr (x # xs)))"

fun trust_each :: "world \<Rightarrow> string option \<Rightarrow> string list list \<Rightarrow> operation list \<Rightarrow> operation list io" where
  "trust_each w src [] ops = ret ops"
| "trust_each w src (t # ts) ops =
     bind (lift (Asset_new w (index t 0) (index t 1))) (\<lambda>a.
     bind (addOperation w (ChangeTrust a src None) ops) (\<lambda>ops'.
     trust_each w src ts ops'))"

definition createAccount ::
  "module_options \<Rightarrow> world \<Rightarrow> string option \<Rightarrow> string option \<Rightarrow> keypair io" where
  "createAccount opts w secret_in trustline =
     bind (lift (validateAccountType opts w)) (\<lambda>u.
     bind (call GetFees (getFees w)) (\<lambda>f.
     bind (lift (if truthy_string secret_in then Keypair_fromSecret w secret_in
                 else (case find_create_by opts of
                         Inl e \<Rightarrow> Inl e
                       | Inr entry \<Rightarrow> Keypair_fromPublicKey w (entry_public_of entry)))) (\<lambda>keyPair.
     bind (getAccount w (Some (publicKey keyPair))) (\<lambda>account.
     bind (builder_account account) (\<lambda>acc.
     (case accountOptions opts of
        None \<Rightarrow> throw (TypeError ''Cannot read properties of undefined (reading starting)'')
      | Some c \<Rightarrow>
     bind (addOperation w
             (CreateAccount (Some (publicKey (Keypair_random w)))
                (case starting c of
                   None \<Rightarrow> ''1''
                 | Some s \<Rightarrow> if truthy_string (starting_balance s) then the (starting_balance s) else ''1''))
             []) (\<lambda>ops1.
     bind (case starting c of
             None \<Rightarrow> ret ops1
           | Some s \<Rightarrow>
               if truthy_string (homeDomain s)
               then addOperation w (SetOptions (the (homeDomain s)) (Some (publicKey (Keypair_random w)))) ops1
               else ret ops1) (\<lambda>ops2.
     bind (case starting c of
             None \<Rightarrow> ret ops2
           | Some s \<Rightarrow>
               (case baseTrustline s of
                  None \<Rightarrow> ret ops2
                | Some ts \<Rightarrow>
                    bind (lift (map_parts (network opts) ts)) (\<lambda>trustlines.
                    trust_each w (Some (publicKey (Keypair_random w))) trustlines ops2))) (\<lambda>ops3.
     bind (if truthy_string trustline
           then bind (lift (getAssetCode w (the trustline))) (\<lambda>ASSET.
                addOperation w (ChangeTrust ASSET (Some (publicKey (Keypair_random w))) None) ops3)
           else ret ops3) (\<lambda>ops4.
     bind (call (SignTransaction (build acc (base_or_default w f) (network opts) ops4 None 180)
                   (Keypair_random w # (if truthy_string secret_in then [keyPair] else [])))
             (signTransaction w (build acc (base_or_default w f) (network opts) ops4 None 180)
                   (Keypair_random w # (if truthy_string secret_in then [keyPair] else [])))) (\<lambda>tx.
     bind (submit_caught w tx) (\<lambda>caught.
     ret (Keypair_random w)))))))))))))"

text \<open>The \<^verbatim>\<open>forEach\<close> over the balance lines of the account that \<^verbatim>\<open>deleteAccount\<close> closes.\<close>

fun drain_lines :: "world \<Rightarrow> string option \<Rightarrow> balance_line list \<Rightarrow> operation list \<Rightarrow> operation list io" where
  "drain_lines w destination [] ops = ret ops"
| "drain_lines w destination (l # ls) ops =
     (if asset_type l \<noteq> ''native''
      then
        bind (if parseFloat w (balance l) \<noteq> Num 0
              then bind (lift (Asset_new w (asset_code l) (asset_issuer l))) (\<lambda>a.
                   addOperation w (Payment None destination a (balance l)) ops)
              else ret ops) (\<lambda>ops1.
        bind (lift (Asset_new w (asset_code l) (asset_issuer l))) (\<lambda>a.
        bind (addOperation w (ChangeTrust a None (Some ''0'')) ops1) (\<lambda>ops2.
        drain_lines w destination ls ops2)))
      else drain_lines w destination ls ops)"

definition deleteAccount :: "module_options \<Rightarrow> world \<Rightarrow> string \<Rightarrow> unit io" where
  "deleteAccount opts w secret_in =
     (if \<not> truthy_string (case accountOptions opts of None \<Rightarrow> None | Some c \<Rightarrow> create_by c)
      then throw (Error ''Se debe mandar a alguna cuenta'')
      else
        bind (getAccountFromSecret w (Some secret_in)) (\<lambda>(keypair, account).
        bind (lift (find_create_by opts)) (\<lambda>entry.
        bind (call GetFees (getFees w)) (\<lambda>f.
        bind (builder_account account) (\<lambda>acc.
        bind (drain_lines w (entry_public_of entry) (balances acc) []) (\<lambda>ops.
        bind (addOperation w (AccountMerge (entry_public_of entry)) ops) (\<lambda>ops'.
        bind (submit_caught w (sign keypair (build acc (base_or_default w f) (network opts) ops' None 30))) (\<lambda>caught.
        ret ()))))))))"

text \<open>What \<^verbatim>\<open>validateTrustLine\<close> returns: \<^verbatim>\<open>true\<close> or the \<^verbatim>\<open>e.response.data\<close> of a rejection.\<close>

datatype trust_result = TrustTrue | TrustData payload

definition validateTrustLine ::
  "module_options \<Rightarrow> world \<Rightarrow> string \<Rightarrow> string \<Rightarrow> string \<Rightarrow> trust_result io" where
  "validateTrustLine opts w asset_in wallet_publicKey wallet_secret =
     bind (lift (getAssetCode w asset_in)) (\<lambda>ASSET.
     bind (lift (find_create_by opts)) (\<lambda>entry.
     bind (getAccountFromSecret w (entry_secret_of entry)) (\<lambda>(keypair, masterAccount).
     bind (getBalances w (Some wallet_publicKey) None) (\<lambda>balance.
     (case balance of
        FoundBalance b \<Rightarrow> throw (TypeError ''balance.find is not a function'')
      | AllBalances bs \<Rightarrow>
          (case find (\<lambda>b. asset_code b = Some (code ASSET)) bs of
             Some hasTrustline \<Rightarrow> ret TrustTrue
           | None \<Rightarrow>
               bind (builder_account masterAccount) (\<lambda>acc.
               bind (lift (Asset_new w
                             (case find (\<lambda>b. asset_type b \<noteq> ''native'') bs of None \<Rightarrow> None | Some l \<Rightarrow> asset_code l)
                             (case find (\<lambda>b. asset_type b \<noteq> ''native'') bs of None \<Rightarrow> None | Some l \<Rightarrow> asset_issuer l))) (\<lambda>old.
               bind (addOperation w (ChangeTrust old (Some wallet_publicKey) (Some ''0'')) []) (\<lambda>ops1.
               bind (addOperation w (ChangeTrust ASSET (Some wallet_publicKey) None) ops1) (\<lambda>ops2.
               bind (lift (Keypair_fromSecret w (Some wallet_secret))) (\<lambda>wk.
               bind (call (SignTransaction (build acc (BASE_FEE w) (network opts) ops2 None 180) [keypair, wk])
                       (signTransaction w (build acc (BASE_FEE w) (network opts) ops2 None 180) [keypair, wk])) (\<lambda>tx.
               (case submitTransaction w tx of
                  Inr u \<Rightarrow> (Inr TrustTrue, [SubmitTransaction tx])
                | Inl e \<Rightarrow>
                    bind (call (SubmitTransaction tx) (response_data e)) (\<lambda>d.
                    (case d of
                       None \<Rightarrow> throw (TypeError ''Cannot read properties of undefined (reading extras)'')
                     | Some x \<Rightarrow> ret (TrustData x))))))))))))))))"

section \<open>A concrete deployment for the examples\<close>

text \<open>
  One master account doing everything on the test network, and a world in which three
  accounts exist and hold the balances listed; every submission is accepted. The Promise
  of the balance check resolves to whether the amount is at most 100.
\<close>

definition demo_options :: module_options where
  "demo_options =
     \<lparr>accountOptions = Some \<lparr>create_by = Some ''ACCOUNT'',
                              starting = Some \<lparr>starting_balance = Some ''1.5'',
                                               homeDomain = Some ''supaverse.tech'',
                                               baseTrustline = None\<rparr>\<rparr>,
      mainAccounts = [\<lparr>entry_type = ''ACCOUNT'', entry_public = Some ''GMASTER'',
                       entry_secret = Some ''SMASTER''\<rparr>],
      mode = Some TESTNET\<rparr>"

definition usdc_issuer :: string where
  "usdc_issuer = ''GA5ZSEJYB37JRC5AVCIA5MOP4RHTM335X2KGX3IHOJAPP5RE34K4KZVN''"

definition demo_Asset_new :: "string option \<Rightarrow> string option \<Rightarrow> thrown + asset" where
  "demo_Asset_new c i =
     (case c of
        None \<Rightarrow> Inl (Error ''Asset code is invalid'')
      | Some c' \<Rightarrow>
          (case i of
             None \<Rightarrow> Inl (Error ''Issuer cannot be null'')
           | Some i' \<Rightarrow>
               if i' = usdc_issuer then Inr (Asset c' (Some i')) else Inl (Error ''Issuer is invalid'')))"

definition demo_fromSecret :: "string option \<Rightarrow> thrown + keypair" where
  "demo_fromSecret s =
     (if s = Some ''SALICE'' then Inr (Keypair ''GALICE'' s)
      else if s = Some ''SBOB'' then Inr (Keypair ''GBOB'' s)
      else if s = Some ''SMASTER'' then Inr (Keypair ''GMASTER'' s)
      else Inl (Error ''invalid encoded string''))"

definition demo_fromPublicKey :: "string option \<Rightarrow> thrown + keypair" where
  "demo_fromPublicKey p =
     (if p = Some ''GALICE'' \<or> p = Some ''GBOB'' \<or> p = Some ''GMASTER''
      then Inr (Keypair (the p) None)
      else Inl (Error ''Invalid Stellar public key''))"

definition native_line :: "string \<Rightarrow> balance_line" where
  "native_line b = \<lparr>asset_type = ''native'', asset_code = None, asset_issuer = None, balance = b\<rparr>"

definition usdc_line :: "string \<Rightarrow> balance_line" where
  "usdc_line b =
     \<lparr>asset_type = ''credit_alphanum4'', asset_code = Some ''USDC'', asset_issuer = Some usdc_issuer,
      balance = b\<rparr>"

definition demo_loadAccount :: "string option \<Rightarrow> thrown + account" where
  "demo_loadAccount a =
     (if a = Some ''GALICE''
      then Inr \<lparr>account_id = ''GALICE'', balances = [native_line ''100.0000000'', usdc_line ''25.0000000'']\<rparr>
      else if a = Some ''GBOB''
      then Inr \<lparr>account_id = ''GBOB'', balances = [usdc_line ''0.0000000'', native_line ''50.0000000'']\<rparr>
      else if a = Some ''GMASTER''
      then Inr \<lparr>account_id = ''GMASTER'', balances = [native_line ''1000.0000000'']\<rparr>
      else Inl (ResponseError (Some ''Not Found'')))"

definition demo_parseFloat :: "string \<Rightarrow> jsnumber" where
  "demo_parseFloat s =
     (if s = ''0.0000000'' then Num 0
      else if s = ''25.0000000'' then Num 25
      else if s = ''50.0000000'' then Num 50
      else if s = ''100.0000000'' then Num 100
      else NaN)"

definition demo_toString :: "jsnumber \<Rightarrow> string" where
  "demo_toString n =
     (if n = Num 5 then ''5'' else if n = Num 10 then ''10'' else if n = Num 500 then ''500'' else ''NaN'')"

definition demo_world :: world where
  "demo_world =
     \<lparr>INVALID_SECRET = ''Invalid secret'',
      INVALID_ACCOUNT_TYPE = ''Invalid account type'',
      BASE_FEE = ''100'',
      Asset_native = Asset ''XLM'' None,
      Asset_new = demo_Asset_new,
      getAssetCode = (\<lambda>s. if s = ''XLM'' then Inr (Asset ''XLM'' None)
                           else demo_Asset_new (index (split_str CHR '':'' s) 0) (index (split_str CHR '':'' s) 1)),
      Keypair_random = Keypair ''GNEW'' (Some ''SNEW''),
      Keypair_fromSecret = demo_fromSecret,
      Keypair_fromPublicKey = demo_fromPublicKey,
      Operation_rejects = (\<lambda>op. None),
      parseFloat = demo_parseFloat,
      Number_toString = demo_toString,
      hash_hex = (\<lambda>tx. ''7f3a''),
      getFees = Inr \<lparr>base = Some ''100'', max_fee = Some ''1000''\<rparr>,
      loadAccount = demo_loadAccount,
      submitTransaction = (\<lambda>tx. Inr ()),
      signTransaction = (\<lambda>tx ks. Inr (tx\<lparr>tx_signatures := ks\<rparr>)),
      validateAssetBalance = (\<lambda>pk a n. case n of Num r \<Rightarrow> r \<le> 100 | _ \<Rightarrow> False),
      validateMemo = (\<lambda>m. Inr ''memo'')\<rparr>"

text \<open>The same world with a network that rejects every submission.\<close>

definition rejecting_world :: world where
  "rejecting_world = demo_world\<lparr>submitTransaction := (\<lambda>tx. Inl (ResponseError (Some ''tx_failed'')))\<rparr>"

definition master_account :: account where
  "master_account = \<lparr>account_id = ''GMASTER'', balances = [native_line ''1000.0000000'']\<rparr>"

definition alice_account :: account where
  "alice_account =
     \<lparr>account_id = ''GALICE'', balances = [native_line ''100.0000000'', usdc_line ''25.0000000'']\<rparr>"

text \<open>The transactions the demo runs of the services submit.\<close>

definition demo_create_tx :: transaction where
  "demo_create_tx =
     \<lparr>tx_source = master_account, tx_fee = ''100'', tx_network = TESTNET,
      tx_operations = [CreateAccount (Some ''GNEW'') ''1.5'', SetOptions ''supaverse.tech'' (Some ''GNEW'')],
      tx_memo = None, tx_timeout = 180, tx_signatures = [Keypair ''GNEW'' (Some ''SNEW'')]\<rparr>"


definition demo_swap_tx :: transaction where
  "demo_swap_tx =
     \<lparr>tx_source = alice_account, tx_fee = ''1000'', tx_network = TESTNET,
      tx_operations = [Payment None (Some ''GBOB'') (Asset ''XLM'' None) ''500'',
                       Payment (Some ''GBOB'') (Some ''GALICE'') (Asset ''USDC'' (Some usdc_issuer)) ''5''],
      tx_memo = None, tx_timeout = 30,
      tx_signatures = [Keypair ''GALICE'' (Some ''SALICE''), Keypair ''GBOB'' (Some ''SBOB'')]\<rparr>"

definition alice_offer :: "rat \<Rightarrow> sender" where
  "alice_offer n = \<lparr>s_secretKey = ''SALICE'', s_asset = ''XLM'', s_amount = Num n\<rparr>"

definition bob_offer :: sender where
  "bob_offer = \<lparr>s_secretKey = ''SBOB'', s_asset = ''USDC:'' @ usdc_issuer, s_amount = Num 5\<rparr>"

definition pay_bob :: "rat \<Rightarrow> payment" where
  "pay_bob n =
     \<lparr>p_asset = ''XLM'', p_amount = AmountNumber (Num n), p_memo = None,
      p_to = \<lparr>to_publicKey = Some ''GBOB'', to_secretKey = None\<rparr>\<rparr>"

definition demo_payment_tx :: transaction where
  "demo_payment_tx =
     \<lparr>tx_source = alice_account, tx_fee = ''100'', tx_network = TESTNET,
      tx_operations = [Payment None (Some ''GBOB'') (Asset ''XLM'' None) ''10'',
                       Payment None (Some ''GBOB'') (Asset ''XLM'' None) ''500''],
      tx_memo = None, tx_timeout = 30, tx_signatures = [Keypair ''GALICE'' (Some ''SALICE'')]\<rparr>"

text \<open>
  A deployment with several roles, none of which carries both an address and a secret: the
  \<^verbatim>\<open>create_by\<close> role is the distributor, known by its public address only.
\<close>

definition advanced_options :: module_options where
  "advanced_options =
     \<lparr>accountOptions = Some \<lparr>create_by = Some ''DISTRIBUTOR'',
                              starting = Some \<lparr>starting_balance = Some ''2'',
                                               homeDomain = Some ''nauta.land'',
                                               baseTrustline = Some [Descriptor (''USDC:'' @ usdc_issuer)]\<rparr>\<rparr>,
      mainAccounts = [\<lparr>entry_type = ''ISSUER'', entry_public = Some ''GISSUER'', entry_secret = None\<rparr>,
                      \<lparr>entry_type = ''DISTRIBUTOR'', entry_public = Some ''GMASTER'', entry_secret = None\<rparr>,
                      \<lparr>entry_type = ''APP_SIGNER'', entry_public = None, entry_secret = Some ''SMASTER''\<rparr>],
      mode = Some TESTNET\<rparr>"

section \<open>Predicates of the statements\<close>

text \<open>A \<^verbatim>\<open>create_by\<close> role is configured: \<^verbatim>\<open>this.accountOptions?.create_by\<close> is truthy.\<close>

definition create_by_configured :: "module_options \<Rightarrow> bool" where
  "create_by_configured opts =
     (case accountOptions opts of
        None \<Rightarrow> False
      | Some c \<Rightarrow> (case create_by c of None \<Rightarrow> False | Some r \<Rightarrow> r \<noteq> []))"




section \<open>Results and logs of the building blocks\<close>

lemma fst_bind: "fst (bind m f) = (case fst m of Inl e \<Rightarrow> Inl e | Inr x \<Rightarrow> fst (f x))"
  by (simp add: bind_def split: prod.splits sum.splits)

lemma snd_bind: "snd (bind m f) = (case fst m of Inl e \<Rightarrow> snd m | Inr x \<Rightarrow> snd m @ snd (f x))"
  by (simp add: bind_def split: prod.splits sum.splits)

lemma in_bind:
  "ev \<in> set (snd (bind m f)) \<longleftrightarrow> ev \<in> set (snd m) \<or> (\<exists>x. fst m = Inr x \<and> ev \<in> set (snd (f x)))"
  by (auto simp: snd_bind split: sum.splits)

lemma in_catch:
  "ev \<in> set (snd (catch m h)) \<longleftrightarrow> ev \<in> set (snd m) \<or> (\<exists>e. fst m = Inl e \<and> ev \<in> set (snd (h e)))"
  by (auto simp: catch_def split: sum.splits prod.splits)

lemma io_simps [simp]:
  "fst (ret x) = Inr x" "snd (ret x) = []"
  "fst (throw e) = Inl e" "snd (throw e) = []"
  "fst (lift r) = r" "snd (lift r) = []"
  "fst (call ev r) = r" "snd (call ev r) = [ev]"
  by (simp_all add: ret_def throw_def lift_def call_def)

lemma addOperation_simps:
  "fst (addOperation w op ops) = (case Operation_rejects w op of Some e \<Rightarrow> Inl e | None \<Rightarrow> Inr (ops @ [op]))"
  "snd (addOperation w op ops) = (case Operation_rejects w op of Some e \<Rightarrow> [] | None \<Rightarrow> [AddOperation op])"
  by (simp_all add: addOperation_def throw_def split: option.splits)

lemma getAccount_simps:
  "fst (getAccount w a) = (case loadAccount w a of Inl e \<Rightarrow> Inl e | Inr acc \<Rightarrow> Inr (Some acc))"
  "snd (getAccount w a) = [LoadAccount a]"
  by (auto simp: isValidAccount_def getAccount_def call_def ret_def bind_def split: sum.splits)

lemma getAccountFromSecret_simps:
  "fst (getAccountFromSecret w s) =
     (case Keypair_fromSecret w s of
        Inl e \<Rightarrow> Inl (Error (INVALID_SECRET w))
      | Inr k \<Rightarrow> (case loadAccount w (Some (publicKey k)) of Inl e \<Rightarrow> Inl e | Inr acc \<Rightarrow> Inr (k, Some acc)))"
  "snd (getAccountFromSecret w s) =
     (case Keypair_fromSecret w s of Inl e \<Rightarrow> [] | Inr k \<Rightarrow> [LoadAccount (Some (publicKey k))])"
  by (auto simp: getAccountFromSecret_def getPairFromSecret_def fst_bind snd_bind getAccount_simps
           split: sum.splits)

lemma add_memo_trace [simp]: "snd (add_memo w m) = []"
  by (simp add: add_memo_def snd_bind split: option.splits sum.splits)

lemma builder_account_simps [simp]:
  "snd (builder_account a) = []"
  "fst (builder_account a) = Inr acc \<longleftrightarrow> a = Some acc"
  by (auto simp: builder_account_def split: option.splits)

lemma split_str_no_sep: "sep \<notin> set c \<Longrightarrow> split_str sep c = [c]"
  by (induction c) auto

lemma split_str_first: "sep \<notin> set c \<Longrightarrow> split_str sep (c @ sep # r) = c # split_str sep r"
  by (induction c) auto

lemma swapPayment_submitted:
  assumes "SubmitTransaction tx \<in> set (snd (swapPayment opts w sndr rcpt memo))"
  shows "\<exists>kr ks acc sa ra.
           Keypair_fromSecret w (Some (s_secretKey rcpt)) = Inr kr \<and>
           Keypair_fromSecret w (Some (s_secretKey sndr)) = Inr ks \<and>
           loadAccount w (Some (publicKey ks)) = Inr acc \<and>
           getAsset w (s_asset sndr) = Inr sa \<and>
           getAsset w (s_asset rcpt) = Inr ra \<and>
           tx_source tx = acc \<and>
           tx_operations tx =
             [Payment None (Some (publicKey kr)) sa (Number_toString w (s_amount sndr)),
              Payment (Some (publicKey kr)) (Some (publicKey ks)) ra (Number_toString w (s_amount rcpt))] \<and>
           tx_signatures tx = [ks, kr]"
  using assms
  apply (simp add: swapPayment_def in_catch in_bind fst_bind getAccountFromSecret_simps
           addOperation_simps split: sum.splits if_splits option.splits prod.splits)
  apply (auto simp: build_def sign_def fst_bind addOperation_simps
           split: sum.splits if_splits option.splits prod.splits)
  done

lemma fst_catch: "fst (catch m h) = (case fst m of Inl e \<Rightarrow> fst (h e) | Inr x \<Rightarrow> Inr x)"
  by (simp add: catch_def split: prod.splits sum.splits)

lemma not_returned_bind:
  assumes "\<And>x. fst m = Inr x \<Longrightarrow> fst (f x) \<noteq> Inr v"
  shows "fst (bind m f) \<noteq> Inr v"
  using assms by (simp add: fst_bind split: sum.splits)

lemma not_returned_catch:
  assumes "fst m \<noteq> Inr v" and "\<And>e. fst (h e) \<noteq> Inr v"
  shows "fst (catch m h) \<noteq> Inr v"
  using assms by (auto simp: fst_catch split: sum.splits)

lemma swapPayment_never_false: "fst (swapPayment opts w sndr rcpt memo) \<noteq> Inr (SwapBool False)"
  unfolding swapPayment_def
  apply (rule not_returned_catch)
   apply (intro not_returned_bind)
   apply (simp only: case_prod_beta)
   apply (intro not_returned_bind)
   apply (simp only: io_simps sum.inject)
   apply hypsubst
   apply (simp only: truthy.simps not_True_eq_False if_False)
   apply (intro not_returned_bind)
   apply simp
  apply (simp add: fst_bind split: sum.splits)
  done

lemma find_hit: "x \<in> set xs \<Longrightarrow> P x \<Longrightarrow> find P xs \<noteq> None"
  by (auto simp: find_None_iff)

lemma submit_caught_simps [simp]:
  "fst (submit_caught w tx) = Inr (submitTransaction w tx)"
  "snd (submit_caught w tx) = [SubmitTransaction tx]"
  by (simp_all add: submit_caught_def)

lemma submit_bind:
  assumes "SubmitTransaction tx \<notin> set (snd m)"
    and "\<And>x. SubmitTransaction tx \<in> set (snd (f x)) \<longrightarrow> fst (f x) = Inr v"
  shows "SubmitTransaction tx \<in> set (snd (bind m f)) \<longrightarrow> fst (bind m f) = Inr v"
  using assms by (auto simp: in_bind fst_bind)

lemma no_submit_bind:
  "SubmitTransaction tx \<notin> set (snd m) \<Longrightarrow> (\<And>x. SubmitTransaction tx \<notin> set (snd (f x))) \<Longrightarrow>
   SubmitTransaction tx \<notin> set (snd (bind m f))"
  by (auto simp: in_bind)

lemma no_submit_addOperation [simp]: "SubmitTransaction tx \<notin> set (snd (addOperation w op ops))"
  by (simp add: addOperation_simps split: option.split)

lemma trust_each_no_submit: "SubmitTransaction tx \<notin> set (snd (trust_each w src ts ops))"
  by (induction ts arbitrary: ops) (auto simp: in_bind addOperation_simps split: option.splits)

lemma createAccount_submitted:
  "SubmitTransaction tx \<in> set (snd (createAccount opts w secret_in trustline)) \<longrightarrow>
   fst (createAccount opts w secret_in trustline) = Inr (Keypair_random w)"
  unfolding createAccount_def
  apply (rule submit_bind, simp)
  apply (rule submit_bind, simp)
  apply (rule submit_bind, simp)
  apply (rule submit_bind, simp add: getAccount_simps)
  apply (rule submit_bind, simp)
  apply (split option.split)
  apply (rule conjI, simp)
  apply (rule allI, rule impI)
  apply (rule submit_bind, simp)
  apply (rule submit_bind, simp split: option.split)
  apply (rule submit_bind, simp add: trust_each_no_submit no_submit_bind split: option.split)
  apply (rule submit_bind, simp add: no_submit_bind)
  apply (rule submit_bind, simp)
  apply (simp add: fst_bind)
  done




subsection \<open>The balance check's answer is never read\<close>

lemma ignores_check_simps [simp]:
  "getAsset (w\<lparr>validateAssetBalance := v\<rparr>) = getAsset w"
  "getAccount (w\<lparr>validateAssetBalance := v\<rparr>) = getAccount w"
  "getBalances (w\<lparr>validateAssetBalance := v\<rparr>) = getBalances w"
  "getAccountFromSecret (w\<lparr>validateAssetBalance := v\<rparr>) = getAccountFromSecret w"
  "addOperation (w\<lparr>validateAssetBalance := v\<rparr>) = addOperation w"
  "amount_number (w\<lparr>validateAssetBalance := v\<rparr>) = amount_number w"
  "amount_toString (w\<lparr>validateAssetBalance := v\<rparr>) = amount_toString w"
  "add_memo (w\<lparr>validateAssetBalance := v\<rparr>) = add_memo w"
  "base_or_default (w\<lparr>validateAssetBalance := v\<rparr>) = base_or_default w"
  by (simp_all add: fun_eq_iff getAsset_def getAccount_def isValidAccount_def getBalances_def
        getAccountFromSecret_def getPairFromSecret_def addOperation_def amount_number_def
        amount_toString_def add_memo_def base_or_default_def
        cong: if_cong sum.case_cong option.case_cong amount.case_cong)

lemma bind_call_Inr: "bind (call ev (Inr x)) f = (case f x of (r, tr) \<Rightarrow> (r, ev # tr))"
  by (simp add: bind_def call_def)

lemma payment_step_ignores_check:
  "payment_step (w\<lparr>validateAssetBalance := v\<rparr>) k st p = payment_step w k st p"
  by (simp add: payment_step_def bind_call_Inr cong: if_cong)

lemma payment_loop_ignores_check:
  "payment_loop (w\<lparr>validateAssetBalance := v\<rparr>) k st ps = payment_loop w k st ps"
  by (induction ps arbitrary: st) (simp_all add: payment_step_ignores_check)

subsection \<open>Runs in the demo world\<close>

lemmas demo_defs = demo_world_def demo_options_def demo_Asset_new_def demo_fromSecret_def
  demo_fromPublicKey_def demo_loadAccount_def demo_parseFloat_def demo_toString_def usdc_issuer_def
  native_line_def usdc_line_def rejecting_world_def master_account_def alice_account_def

lemmas run_defs = bind_def ret_def throw_def lift_def call_def catch_def addOperation_def
  getAccount_def isValidAccount_def getAccountFromSecret_def getPairFromSecret_def getBalances_def
  builder_account_def build_def sign_def base_or_default_def max_or_default_def network_def
  getAsset_def add_memo_def truthy_string_def

lemma createAccount_demo_rejected:
  "createAccount demo_options rejecting_world None None
     = (Inr (Keypair ''GNEW'' (Some ''SNEW'')),
        [GetFees, LoadAccount (Some ''GMASTER''),
         AddOperation (CreateAccount (Some ''GNEW'') ''1.5''),
         AddOperation (SetOptions ''supaverse.tech'' (Some ''GNEW'')),
         SignTransaction (demo_create_tx\<lparr>tx_signatures := []\<rparr>) [Keypair ''GNEW'' (Some ''SNEW'')],
         SubmitTransaction demo_create_tx])"
  by (simp add: createAccount_def validateAccountType_def accountsTypes_def find_create_by_def
        entry_public_of_def submit_caught_def demo_create_tx_def demo_defs run_defs)


lemma swapPayment_demo:
  "swapPayment demo_options demo_world (alice_offer 500) bob_offer None
     = (Inr (SwapBool True),
        [GetFees, LoadAccount (Some ''GALICE''),
         ValidateAssetBalance ''SALICE'' (Asset ''XLM'' None) (Num 500),
         AddOperation (Payment None (Some ''GBOB'') (Asset ''XLM'' None) ''500''),
         AddOperation (Payment (Some ''GBOB'') (Some ''GALICE'') (Asset ''USDC'' (Some usdc_issuer)) ''5''),
         SubmitTransaction demo_swap_tx])"
  by (simp add: swapPayment_def alice_offer_def bob_offer_def demo_swap_tx_def demo_defs run_defs)

lemma sendPayment_demo:
  "sendPayment demo_options demo_world [pay_bob 10, pay_bob 500] ''SALICE'' False
     = (Inr (TransactionHash ''7f3a''),
        [GetFees, LoadAccount (Some ''GALICE''),
         ValidateAssetBalance ''GALICE'' (Asset ''XLM'' None) (Num 10),
         LoadAccount (Some ''GBOB''),
         AddOperation (Payment None (Some ''GBOB'') (Asset ''XLM'' None) ''10''),
         ValidateAssetBalance ''GALICE'' (Asset ''XLM'' None) (Num 500),
         LoadAccount (Some ''GBOB''),
         AddOperation (Payment None (Some ''GBOB'') (Asset ''XLM'' None) ''500''),
         SignTransaction (demo_payment_tx\<lparr>tx_signatures := []\<rparr>) [Keypair ''GALICE'' (Some ''SALICE'')],
         SubmitTransaction demo_payment_tx])"
  by (simp add: sendPayment_def payment_step_def pay_bob_def amount_number_def amount_toString_def
        demo_payment_tx_def demo_defs run_defs)

lemma validateTrustLine_advanced:
  "validateTrustLine advanced_options demo_world (''USDC:'' @ usdc_issuer) ''GALICE'' ''SALICE''
     = (Inl (Error ''Invalid secret''), [])"
  by (simp add: validateTrustLine_def find_create_by_def entry_secret_of_def advanced_options_def
        demo_defs run_defs)

section \<open>Properties\<close>

text \<open>
  C1 fails on the code. \<^verbatim>\<open>sendPayment\<close> negates the call of \<^verbatim>\<open>validateAssetBalance\<close>
  without awaiting it. The value negated is a Promise, which is truthy whatever it resolves
  to, so \<^verbatim>\<open>Error('Insufficient balance')\<close> is never thrown for an unmet requirement: the
  call does in every world exactly what it does in the world where each check resolves to
  what \<open>v\<close> says, whatever \<open>v\<close> is. In the demo world, where the sender's check resolves to
  false for 500, the payment of 500 is appended, signed and submitted with the payment of
  10, and the call returns the hash.
\<close>

theorem sendPayment_ignores_balance_check:
  "sendPayment opts (w\<lparr>validateAssetBalance := v\<rparr>) payments secretKey feeBump
     = sendPayment opts w payments secretKey feeBump"
  by (simp add: sendPayment_def payment_loop_ignores_check payment_step_ignores_check
        cong: if_cong list.case_cong prod.case_cong)

theorem sendPayment_ignores_balance_check_witness:
  "\<not> validateAssetBalance demo_world ''GALICE'' (Asset ''XLM'' None) (Num 500) \<and>
   sendPayment demo_options (demo_world\<lparr>validateAssetBalance := (\<lambda>pk a n. True)\<rparr>)
       [pay_bob 10, pay_bob 500] ''SALICE'' False
     = sendPayment demo_options demo_world [pay_bob 10, pay_bob 500] ''SALICE'' False \<and>
   sendPayment demo_options demo_world [pay_bob 10, pay_bob 500] ''SALICE'' False
     = (Inr (TransactionHash ''7f3a''),
        [GetFees, LoadAccount (Some ''GALICE''),
         ValidateAssetBalance ''GALICE'' (Asset ''XLM'' None) (Num 10),
         LoadAccount (Some ''GBOB''),
         AddOperation (Payment None (Some ''GBOB'') (Asset ''XLM'' None) ''10''),
         ValidateAssetBalance ''GALICE'' (Asset ''XLM'' None) (Num 500),
         LoadAccount (Some ''GBOB''),
         AddOperation (Payment None (Some ''GBOB'') (Asset ''XLM'' None) ''500''),
         SignTransaction (demo_payment_tx\<lparr>tx_signatures := []\<rparr>) [Keypair ''GALICE'' (Some ''SALICE'')],
         SubmitTransaction demo_payment_tx])"
proof -
  have low: "\<not> validateAssetBalance demo_world ''GALICE'' (Asset ''XLM'' None) (Num 500)"
    by (simp add: demo_defs)
  from sendPayment_ignores_balance_check
         [where opts = demo_options and w = demo_world and v = "\<lambda>pk a n. True"
            and payments = "[pay_bob 10, pay_bob 500]" and secretKey = "''SALICE''" and feeBump = False]
       low sendPayment_demo
  show ?thesis by blast
qed

text \<open>
  C2, as the code has it. \<^verbatim>\<open>getAsset\<close> returns the native asset for the marker
  \<^verbatim>\<open>XLM\<close>. For any other descriptor it hands the text before the first colon, as code, and
  the text between the first and the second colon, as issuer (undefined when the descriptor
  has no colon), to the SDK's \<^verbatim>\<open>Asset\<close> constructor, and fails exactly when that
  constructor throws. Whatever follows a second colon is ignored: the resolver has no check
  of its own on the number of components.
\<close>

theorem getAsset_components:
  "getAsset w ''XLM'' = Inr (Asset_native w) \<and>
   (CHR '':'' \<notin> set c \<longrightarrow> c \<noteq> ''XLM'' \<longrightarrow> getAsset w c = Asset_new w (Some c) None) \<and>
   (CHR '':'' \<notin> set c \<longrightarrow> CHR '':'' \<notin> set i \<longrightarrow>
      getAsset w (c @ '':'' @ i) = Asset_new w (Some c) (Some i) \<and>
      getAsset w (c @ '':'' @ i @ '':'' @ r) = Asset_new w (Some c) (Some i))"
proof -
  have ne: "c @ CHR '':'' # t \<noteq> ''XLM''" for t
  proof
    assume "c @ CHR '':'' # t = ''XLM''"
    then have "CHR '':'' \<in> set ''XLM''" by (metis in_set_conv_decomp)
    then show False by simp
  qed
  have native: "getAsset w ''XLM'' = Inr (Asset_native w)"
    by (simp add: getAsset_def)
  have one: "getAsset w c = Asset_new w (Some c) None" if "CHR '':'' \<notin> set c" "c \<noteq> ''XLM''"
    using that by (simp add: getAsset_def split_str_no_sep)
  have two: "getAsset w (c @ '':'' @ i) = Asset_new w (Some c) (Some i)"
    if "CHR '':'' \<notin> set c" "CHR '':'' \<notin> set i"
    using that ne[of i] by (simp add: getAsset_def split_str_first split_str_no_sep)
  have three: "getAsset w (c @ '':'' @ i @ '':'' @ r) = Asset_new w (Some c) (Some i)"
    if "CHR '':'' \<notin> set c" "CHR '':'' \<notin> set i"
    using that ne[of "i @ '':'' @ r"] by (simp add: getAsset_def split_str_first)
  show ?thesis using native one two three by blast
qed

theorem getAsset_components_witness:
  "CHR '':'' \<notin> set ''USDC'' \<and> CHR '':'' \<notin> set usdc_issuer \<and>
   getAsset demo_world (''USDC'' @ '':'' @ usdc_issuer @ '':'' @ ''extra'') = Inr (Asset ''USDC'' (Some usdc_issuer)) \<and>
   getAsset demo_world (''USDC'' @ '':'' @ usdc_issuer) = Inr (Asset ''USDC'' (Some usdc_issuer)) \<and>
   getAsset demo_world ''USDC'' = Inl (Error ''Issuer cannot be null'') \<and>
   getAsset demo_world ''XLM'' = Inr (Asset ''XLM'' None)"
  using getAsset_components [of demo_world "''USDC''" usdc_issuer "''extra''"]
  by (simp add: demo_world_def demo_Asset_new_def usdc_issuer_def)

text \<open>
  C2, as the specification states it, fails: a descriptor of three components, whose first
  two are a code and a well-formed issuer, does not fail; it resolves to the asset of the
  first two.
\<close>

theorem getAsset_extra_component_accepted:
  "getAsset demo_world ''USDC:GA5ZSEJYB37JRC5AVCIA5MOP4RHTM335X2KGX3IHOJAPP5RE34K4KZVN:extra''
     = Inr (Asset ''USDC'' (Some ''GA5ZSEJYB37JRC5AVCIA5MOP4RHTM335X2KGX3IHOJAPP5RE34K4KZVN''))"
  by (simp add: getAsset_def demo_world_def demo_Asset_new_def usdc_issuer_def)

text \<open>
  C5. \<^verbatim>\<open>sendPayment\<close> on an empty payment list throws \<^verbatim>\<open>Error('No payments to send')\<close>,
  the specification's EmptyPaymentList, and its log is empty: no fee or account was loaded
  and no other collaborator was called.
\<close>

theorem sendPayment_empty:
  "sendPayment opts w [] secretKey feeBump = (Inl (Error ''No payments to send''), [])"
  by (simp add: sendPayment_def throw_def)

text \<open>
  C7. When no \<^verbatim>\<open>create_by\<close> role is configured, \<^verbatim>\<open>deleteAccount\<close> throws
  \<^verbatim>\<open>Error('Se debe mandar a alguna cuenta')\<close>, the specification's NoDestinationRole, and
  its log is empty: no account load, no fee load, no submission.
\<close>

theorem deleteAccount_no_destination_role:
  "\<not> create_by_configured opts \<Longrightarrow>
   deleteAccount opts w secret_in = (Inl (Error ''Se debe mandar a alguna cuenta''), [])"
  by (auto simp: create_by_configured_def deleteAccount_def throw_def truthy_string_def
           split: option.splits)

theorem deleteAccount_no_destination_role_witness:
  "\<not> create_by_configured (demo_options\<lparr>accountOptions := Some \<lparr>create_by = None, starting = None\<rparr>\<rparr>) \<and>
   deleteAccount (demo_options\<lparr>accountOptions := Some \<lparr>create_by = None, starting = None\<rparr>\<rparr>) demo_world ''SALICE''
     = (Inl (Error ''Se debe mandar a alguna cuenta''), [])"
  using deleteAccount_no_destination_role
          [of "demo_options\<lparr>accountOptions := Some \<lparr>create_by = None, starting = None\<rparr>\<rparr>" demo_world "''SALICE''"]
  by (simp add: create_by_configured_def)

text \<open>
  C10. \<^verbatim>\<open>isValidAccount\<close> is truthy on every input: \<^verbatim>\<open>true\<close> when the SDK parses the
  string as a public key, and the caught error object, never \<^verbatim>\<open>false\<close>, when it does not.
  So \<^verbatim>\<open>getAccount\<close> never returns null: it always asks the network for the account at
  the address it was given and returns or throws what that load does.
\<close>

theorem isValidAccount_always_truthy:
  "truthy (isValidAccount w a) \<and>
   isValidAccount w a \<noteq> JBool False \<and>
   (\<forall>k. Keypair_fromPublicKey w a = Inr k \<longrightarrow> isValidAccount w a = JBool True) \<and>
   (\<forall>e. Keypair_fromPublicKey w a = Inl e \<longrightarrow> isValidAccount w a = JError e) \<and>
   fst (getAccount w a) \<noteq> Inr None \<and>
   getAccount w a = (case loadAccount w a of Inl e \<Rightarrow> Inl e | Inr acc \<Rightarrow> Inr (Some acc), [LoadAccount a])"
  by (auto simp: isValidAccount_def getAccount_def call_def ret_def bind_def split: sum.splits)

theorem isValidAccount_always_truthy_witness:
  "Keypair_fromPublicKey demo_world (Some ''not a key'') = Inl (Error ''Invalid Stellar public key'') \<and>
   isValidAccount demo_world (Some ''not a key'') = JError (Error ''Invalid Stellar public key'') \<and>
   truthy (isValidAccount demo_world (Some ''not a key'')) \<and>
   getAccount demo_world (Some ''not a key'')
     = (Inl (ResponseError (Some ''Not Found'')), [LoadAccount (Some ''not a key'')])"
  using isValidAccount_always_truthy [of demo_world "Some ''not a key''"]
  by (simp add: demo_world_def demo_fromPublicKey_def demo_loadAccount_def)

text \<open>
  C3 holds in its first half and fails on the code in its second. Every transaction
  \<^verbatim>\<open>swapPayment\<close> submits is built on the sender's account, is signed by the sender and
  the recipient, and holds exactly two operations, both payments: the first, with no source
  of its own and so from the sender's account, pays the sender's asset and amount to the
  recipient's address; the second, with the recipient's address as its source, pays the
  recipient's asset and amount to the sender's address. But the call never returns
  \<^verbatim>\<open>false\<close>: the balance check is negated without being awaited, and the Promise negated
  is truthy whatever it resolves to, so a sender whose check resolves to false is taken
  through to submission like any other.
\<close>

theorem swapPayment_two_reversed_payments:
  "fst (swapPayment opts w sndr rcpt memo) \<noteq> Inr (SwapBool False) \<and>
   (\<forall>tx. SubmitTransaction tx \<in> set (snd (swapPayment opts w sndr rcpt memo)) \<longrightarrow>
      (\<exists>kr ks acc sa ra.
         Keypair_fromSecret w (Some (s_secretKey rcpt)) = Inr kr \<and>
         Keypair_fromSecret w (Some (s_secretKey sndr)) = Inr ks \<and>
         loadAccount w (Some (publicKey ks)) = Inr acc \<and>
         getAsset w (s_asset sndr) = Inr sa \<and>
         getAsset w (s_asset rcpt) = Inr ra \<and>
         tx_source tx = acc \<and>
         tx_operations tx =
           [Payment None (Some (publicKey kr)) sa (Number_toString w (s_amount sndr)),
            Payment (Some (publicKey kr)) (Some (publicKey ks)) ra (Number_toString w (s_amount rcpt))] \<and>
         tx_signatures tx = [ks, kr]))"
  using swapPayment_submitted swapPayment_never_false by blast

theorem swapPayment_two_reversed_payments_witness:
  "\<not> validateAssetBalance demo_world ''SALICE'' (Asset ''XLM'' None) (Num 500) \<and>
   swapPayment demo_options demo_world (alice_offer 500) bob_offer None
     = (Inr (SwapBool True),
        [GetFees, LoadAccount (Some ''GALICE''),
         ValidateAssetBalance ''SALICE'' (Asset ''XLM'' None) (Num 500),
         AddOperation (Payment None (Some ''GBOB'') (Asset ''XLM'' None) ''500''),
         AddOperation (Payment (Some ''GBOB'') (Some ''GALICE'') (Asset ''USDC'' (Some usdc_issuer)) ''5''),
         SubmitTransaction demo_swap_tx]) \<and>
   fst (swapPayment demo_options demo_world (alice_offer 500) bob_offer None) \<noteq> Inr (SwapBool False) \<and>
   tx_source demo_swap_tx = alice_account \<and>
   tx_operations demo_swap_tx =
     [Payment None (Some ''GBOB'') (Asset ''XLM'' None) ''500'',
      Payment (Some ''GBOB'') (Some ''GALICE'') (Asset ''USDC'' (Some usdc_issuer)) ''5''] \<and>
   tx_signatures demo_swap_tx = [Keypair ''GALICE'' (Some ''SALICE''), Keypair ''GBOB'' (Some ''SBOB'')]"
proof -
  have low: "\<not> validateAssetBalance demo_world ''SALICE'' (Asset ''XLM'' None) (Num 500)"
    by (simp add: demo_defs)
  have tx:
    "tx_source demo_swap_tx = alice_account"
    "tx_operations demo_swap_tx =
       [Payment None (Some ''GBOB'') (Asset ''XLM'' None) ''500'',
        Payment (Some ''GBOB'') (Some ''GALICE'') (Asset ''USDC'' (Some usdc_issuer)) ''5'']"
    "tx_signatures demo_swap_tx = [Keypair ''GALICE'' (Some ''SALICE''), Keypair ''GBOB'' (Some ''SBOB'')]"
    by (simp_all add: demo_swap_tx_def)
  from swapPayment_two_reversed_payments [of demo_options demo_world "alice_offer 500" bob_offer None]
  have "fst (swapPayment demo_options demo_world (alice_offer 500) bob_offer None) \<noteq> Inr (SwapBool False)"
    by blast
  with low tx swapPayment_demo show ?thesis by blast
qed

text \<open>
  C4 fails on the code. The handler of \<^verbatim>\<open>swapPayment\<close> evaluates \<^verbatim>\<open>e.response.data\<close> on
  whatever was thrown. When the sender's secret key does not parse, \<^verbatim>\<open>getPairFromSecret\<close>
  throws a plain \<^verbatim>\<open>Error(INVALID_SECRET)\<close>, which has no \<^verbatim>\<open>response\<close>; the handler then
  raises a type error of its own, and that one leaves \<^verbatim>\<open>swapPayment\<close>.
\<close>

theorem swapPayment_invalid_sender_secret_escapes:
  "getFees w = Inr f \<Longrightarrow> Keypair_fromSecret w (Some (s_secretKey sndr)) = Inl e \<Longrightarrow>
   swapPayment opts w sndr rcpt memo
     = (Inl (TypeError ''Cannot read properties of undefined (reading data)''), [GetFees])"
  by (simp add: swapPayment_def catch_def bind_def call_def lift_def getAccountFromSecret_def
        getPairFromSecret_def)

theorem swapPayment_invalid_sender_secret_escapes_witness:
  "getFees demo_world = Inr \<lparr>base = Some ''100'', max_fee = Some ''1000''\<rparr> \<and>
   Keypair_fromSecret demo_world (Some ''not a secret'') = Inl (Error ''invalid encoded string'') \<and>
   swapPayment demo_options demo_world
      \<lparr>s_secretKey = ''not a secret'', s_asset = ''XLM'', s_amount = Num 10\<rparr> bob_offer None
     = (Inl (TypeError ''Cannot read properties of undefined (reading data)''), [GetFees])"
  using swapPayment_invalid_sender_secret_escapes
          [of demo_world "\<lparr>base = Some ''100'', max_fee = Some ''1000''\<rparr>"
              "\<lparr>s_secretKey = ''not a secret'', s_asset = ''XLM'', s_amount = Num 10\<rparr>"
              "Error ''invalid encoded string''" demo_options bob_offer None]
  by (simp add: demo_world_def demo_fromSecret_def)

text \<open>
  C6. Whenever \<^verbatim>\<open>createAccount\<close> gets as far as submitting its transaction, which it
  does only after the role validation has passed, it returns the key pair it generated
  for the new account, whatever the network answers: a rejected submission is caught, its
  error becomes the value of the awaited expression, and nothing is thrown again.
\<close>

theorem createAccount_keypair_survives_submission:
  "SubmitTransaction tx \<in> set (snd (createAccount opts w secret_in trustline)) \<Longrightarrow>
   fst (createAccount opts w secret_in trustline) = Inr (Keypair_random w)"
  using createAccount_submitted by blast

theorem createAccount_keypair_survives_submission_witness:
  "SubmitTransaction demo_create_tx \<in> set (snd (createAccount demo_options rejecting_world None None)) \<and>
   submitTransaction rejecting_world demo_create_tx = Inl (ResponseError (Some ''tx_failed'')) \<and>
   validateAccountType demo_options rejecting_world = Inr () \<and>
   fst (createAccount demo_options rejecting_world None None) = Inr (Keypair ''GNEW'' (Some ''SNEW''))"
proof -
  have rejected: "submitTransaction rejecting_world demo_create_tx = Inl (ResponseError (Some ''tx_failed''))"
    by (simp add: rejecting_world_def)
  have valid: "validateAccountType demo_options rejecting_world = Inr ()"
    by (simp add: validateAccountType_def accountsTypes_def demo_options_def)
  have submitted:
    "SubmitTransaction demo_create_tx \<in> set (snd (createAccount demo_options rejecting_world None None))"
    by (simp add: createAccount_demo_rejected)
  from createAccount_keypair_survives_submission [OF submitted] rejected valid submitted
  show ?thesis by (simp add: rejecting_world_def demo_world_def)
qed



text \<open>
  C9, as the code has it. \<^verbatim>\<open>validateTrustLine\<close> first resolves the asset descriptor,
  parses the secret of the \<^verbatim>\<open>create_by\<close> entry and loads that master account, and only
  then loads the wallet. When all of these succeed and the wallet has a balance line whose
  asset code is the code of the requested asset, the call returns \<^verbatim>\<open>true\<close> after those two
  account loads: it appends no operation, signs nothing and submits nothing. A second call
  in the same state is this same run, so it performs no change of trust.
\<close>

theorem validateTrustLine_existing_line:
  assumes "getAssetCode w asset_in = Inr A"
    and "find_create_by opts = Inr entry"
    and "Keypair_fromSecret w (entry_secret_of entry) = Inr k"
    and "loadAccount w (Some (publicKey k)) = Inr master"
    and "loadAccount w (Some wallet_publicKey) = Inr wallet"
    and "l \<in> set (balances wallet)"
    and "asset_code l = Some (code A)"
  shows "validateTrustLine opts w asset_in wallet_publicKey wallet_secret
           = (Inr TrustTrue, [LoadAccount (Some (publicKey k)), LoadAccount (Some wallet_publicKey)])"
proof -
  from assms(6,7) have "find (\<lambda>b. asset_code b = Some (code A)) (balances wallet) \<noteq> None"
    by (rule find_hit)
  then obtain h where h: "find (\<lambda>b. asset_code b = Some (code A)) (balances wallet) = Some h"
    by blast
  have ms: "getAccountFromSecret w (entry_secret_of entry)
              = (Inr (k, Some master), [LoadAccount (Some (publicKey k))])"
    using assms(3,4) by (simp add: prod_eq_iff getAccountFromSecret_simps)
  have bs: "getBalances w (Some wallet_publicKey) None
              = (Inr (AllBalances (balances wallet)), [LoadAccount (Some wallet_publicKey)])"
    using assms(5) by (simp add: prod_eq_iff getBalances_def fst_bind snd_bind getAccount_simps)
  show ?thesis
    using assms(1,2) h
    by (simp add: validateTrustLine_def ms bs lift_def ret_def bind_def)
qed

theorem validateTrustLine_existing_line_witness:
  "getAssetCode demo_world (''USDC:'' @ usdc_issuer) = Inr (Asset ''USDC'' (Some usdc_issuer)) \<and>
   loadAccount demo_world (Some ''GALICE'') = Inr alice_account \<and>
   usdc_line ''25.0000000'' \<in> set (balances alice_account) \<and>
   asset_code (usdc_line ''25.0000000'') = Some ''USDC'' \<and>
   validateTrustLine demo_options demo_world (''USDC:'' @ usdc_issuer) ''GALICE'' ''SALICE''
     = (Inr TrustTrue, [LoadAccount (Some ''GMASTER''), LoadAccount (Some ''GALICE'')])"
proof -
  have a: "getAssetCode demo_world (''USDC:'' @ usdc_issuer) = Inr (Asset ''USDC'' (Some usdc_issuer))"
    by (simp add: demo_defs)
  have e: "find_create_by demo_options
             = Inr (Some \<lparr>entry_type = ''ACCOUNT'', entry_public = Some ''GMASTER'',
                          entry_secret = Some ''SMASTER''\<rparr>)"
    by (simp add: find_create_by_def demo_defs)
  have k: "Keypair_fromSecret demo_world
             (entry_secret_of (Some \<lparr>entry_type = ''ACCOUNT'', entry_public = Some ''GMASTER'',
                                     entry_secret = Some ''SMASTER''\<rparr>))
             = Inr (Keypair ''GMASTER'' (Some ''SMASTER''))"
    by (simp add: entry_secret_of_def demo_defs)
  have m: "loadAccount demo_world (Some (publicKey (Keypair ''GMASTER'' (Some ''SMASTER'')))) = Inr master_account"
    by (simp add: demo_defs)
  have wl: "loadAccount demo_world (Some ''GALICE'') = Inr alice_account"
    by (simp add: demo_defs)
  have l: "usdc_line ''25.0000000'' \<in> set (balances alice_account)"
    by (simp add: demo_defs)
  have c: "asset_code (usdc_line ''25.0000000'') = Some (code (Asset ''USDC'' (Some usdc_issuer)))"
    by (simp add: demo_defs)
  from validateTrustLine_existing_line [OF a e k m wl l c, of "''SALICE''"] a wl l c
  show ?thesis by simp
qed

text \<open>
  C9, as the specification states it, fails: a wallet that has the line does not make
  \<^verbatim>\<open>validateTrustLine\<close> return success by itself. The master key pair is parsed from the
  secret of the \<^verbatim>\<open>create_by\<close> entry before the wallet is looked at; where that entry
  carries a public address only, the call throws \<^verbatim>\<open>Error(INVALID_SECRET)\<close> before any
  account is loaded, for a wallet that holds the asset like for any other.
\<close>

theorem validateTrustLine_needs_master_secret:
  "loadAccount demo_world (Some ''GALICE'') = Inr alice_account \<and>
   usdc_line ''25.0000000'' \<in> set (balances alice_account) \<and>
   asset_code (usdc_line ''25.0000000'') = Some (code (Asset ''USDC'' (Some usdc_issuer))) \<and>
   getAssetCode demo_world (''USDC:'' @ usdc_issuer) = Inr (Asset ''USDC'' (Some usdc_issuer)) \<and>
   validateTrustLine advanced_options demo_world (''USDC:'' @ usdc_issuer) ''GALICE'' ''SALICE''
     = (Inl (Error ''Invalid secret''), [])"
proof -
  have facts:
    "loadAccount demo_world (Some ''GALICE'') = Inr alice_account"
    "usdc_line ''25.0000000'' \<in> set (balances alice_account)"
    "asset_code (usdc_line ''25.0000000'') = Some (code (Asset ''USDC'' (Some usdc_issuer)))"
    "getAssetCode demo_world (''USDC:'' @ usdc_issuer) = Inr (Asset ''USDC'' (Some usdc_issuer))"
    by (simp_all add: demo_defs)
  with validateTrustLine_advanced show ?thesis by blast
qed

end
